theory Spec2Isabelle
  imports Complex_Main
begin

section \<open>Data model (types.ts)\<close>

text \<open>
  JavaScript numbers are modelled as reals, so arithmetic is exact. The concrete inputs
  used for evaluation below are chosen so that every intermediate value is a small
  dyadic rational or the comparison has a wide margin.
\<close>

record Point =
  pt_x :: real
  pt_y :: real

datatype DifficultyLevel = Intro | Advanced | Challenge | Hell

datatype OriginPos = Center | BottomLeft

text \<open>
  \<open>GameConfig\<close> without its display strings \<open>name\<close> and \<open>description\<close>,
  which no computation reads. The ranges are pairs \<open>(lower, upper)\<close>.
\<close>

record GameConfig =
  cfg_id :: DifficultyLevel
  xRange :: "real \<times> real"
  yRange :: "real \<times> real"
  gridStep :: real
  majorGridStep :: "real option"
  labelStep :: real
  targetStep :: real
  tolerance :: real
  themeColor :: string
  originPos :: OriginPos

section \<open>Configuration table (constants.ts)\<close>

definition UNLOCK_THRESHOLD :: real where
  "UNLOCK_THRESHOLD = 20"

fun GAME_MODES :: "DifficultyLevel \<Rightarrow> GameConfig" where
  "GAME_MODES Intro =
     \<lparr>cfg_id = Intro, xRange = (0, 10), yRange = (0, 10), gridStep = 1,
      majorGridStep = None, labelStep = 1, targetStep = 1, tolerance = 4 / 10,
      themeColor = ''emerald'', originPos = BottomLeft\<rparr>"
| "GAME_MODES Advanced =
     \<lparr>cfg_id = Advanced, xRange = (- 10, 10), yRange = (- 10, 10), gridStep = 1,
      majorGridStep = None, labelStep = 2, targetStep = 1, tolerance = 4 / 10,
      themeColor = ''blue'', originPos = Center\<rparr>"
| "GAME_MODES Challenge =
     \<lparr>cfg_id = Challenge, xRange = (- 50, 50), yRange = (- 50, 50), gridStep = 5,
      majorGridStep = Some 10, labelStep = 10, targetStep = 5, tolerance = 35 / 10,
      themeColor = ''orange'', originPos = Center\<rparr>"
| "GAME_MODES Hell =
     \<lparr>cfg_id = Hell, xRange = (- 240, 240), yRange = (- 180, 180), gridStep = 20,
      majorGridStep = Some 100, labelStep = 100, targetStep = 10, tolerance = 15,
      themeColor = ''rose'', originPos = Center\<rparr>"

text \<open>The invariant of the data model: non-empty ranges and positive steps.\<close>

definition config_ok :: "GameConfig \<Rightarrow> bool" where
  "config_ok cfg =
     (fst (xRange cfg) < snd (xRange cfg) \<and> fst (yRange cfg) < snd (yRange cfg) \<and>
      0 < gridStep cfg \<and> 0 < labelStep cfg \<and> 0 < targetStep cfg)"

section \<open>Coordinate mapper (CoordinateCanvas.tsx)\<close>

record Dimensions =
  width :: real
  height :: real

definition initialDimensions :: Dimensions where
  "initialDimensions = \<lparr>width = 600, height = 450\<rparr>"

definition aspectRatio :: "DifficultyLevel \<Rightarrow> real" where
  "aspectRatio i = (if i = Intro then 1 else 4 / 3)"

text \<open>
  \<open>updateSize\<close>: the resize handler. The container is \<open>None\<close> while the ref is not
  attached; otherwise it carries \<open>clientWidth\<close>, a non-negative integer. There is no
  lower bound on the width that is taken over.
\<close>

definition updateSize :: "DifficultyLevel \<Rightarrow> nat option \<Rightarrow> Dimensions \<Rightarrow> Dimensions" where
  "updateSize i container dims =
     (case container of
        None \<Rightarrow> dims
      | Some clientWidth \<Rightarrow>
          \<lparr>width = real clientWidth, height = real clientWidth / aspectRatio i\<rparr>)"

definition padding :: real where
  "padding = 40"

definition drawW :: "Dimensions \<Rightarrow> real" where
  "drawW dims = width dims - padding * 2"

definition drawH :: "Dimensions \<Rightarrow> real" where
  "drawH dims = height dims - padding * 2"

definition xSpan :: "GameConfig \<Rightarrow> real" where
  "xSpan cfg = snd (xRange cfg) - fst (xRange cfg)"

definition ySpan :: "GameConfig \<Rightarrow> real" where
  "ySpan cfg = snd (yRange cfg) - fst (yRange cfg)"

text \<open>
  \<open>toPixel\<close> divides by the spans of the configuration only; these come from the static
  table, where they are positive.
\<close>

definition toPixel :: "GameConfig \<Rightarrow> Dimensions \<Rightarrow> Point \<Rightarrow> Point" where
  "toPixel cfg dims p =
     \<lparr>pt_x = padding + ((pt_x p - fst (xRange cfg)) / xSpan cfg) * drawW dims,
      pt_y = height dims - padding - ((pt_y p - fst (yRange cfg)) / ySpan cfg) * drawH dims\<rparr>"

text \<open>
  \<open>Math.round\<close> rounds to the nearest integer, a tie going up.
\<close>

definition Math_round :: "real \<Rightarrow> real" where
  "Math_round v = of_int \<lfloor>v + 1 / 2\<rfloor>"

text \<open>
  \<open>toLogical\<close> divides by \<open>drawW\<close> and \<open>drawH\<close>, which depend on the size of the
  container at run time. A division by zero does not raise in JavaScript: it gives an
  infinity or NaN, which \<open>Math.round\<close> passes on. The model returns \<open>None\<close> for such a
  point without finite coordinates. \<open>toLogical_exact\<close> is the pair of locals \<open>lx\<close>, \<open>ly\<close>
  of the function, \<open>toLogical\<close> the value it returns.
\<close>

definition toLogical_exact :: "GameConfig \<Rightarrow> Dimensions \<Rightarrow> Point \<Rightarrow> Point option" where
  "toLogical_exact cfg dims p =
     (if drawW dims = 0 \<or> drawH dims = 0 then None
      else Some
        \<lparr>pt_x = ((pt_x p - padding) / drawW dims) * xSpan cfg + fst (xRange cfg),
         pt_y = ((height dims - padding - pt_y p) / drawH dims) * ySpan cfg + fst (yRange cfg)\<rparr>)"

definition toLogical :: "GameConfig \<Rightarrow> Dimensions \<Rightarrow> Point \<Rightarrow> Point option" where
  "toLogical cfg dims p =
     (case toLogical_exact cfg dims p of
        None \<Rightarrow> None
      | Some l \<Rightarrow> Some \<lparr>pt_x = Math_round (pt_x l), pt_y = Math_round (pt_y l)\<rparr>)"

text \<open>
  \<open>handleClick\<close> of the canvas: the pointer position relative to the canvas rectangle
  goes through \<open>toLogical\<close>, and the result is what \<open>onClick\<close> receives. The handler
  is attached to the canvas element, so the canvas is there when it runs. \<open>client\<close> is
  the pair \<open>(clientX, clientY)\<close> of the event, \<open>rect\<close> the pair \<open>(left, top)\<close> of the
  bounding rectangle.
\<close>

definition handleClick ::
  "GameConfig \<Rightarrow> Dimensions \<Rightarrow> real \<times> real \<Rightarrow> real \<times> real \<Rightarrow> Point option" where
  "handleClick cfg dims client rect =
     toLogical cfg dims \<lparr>pt_x = fst client - fst rect, pt_y = snd client - snd rect\<rparr>"

definition in_range :: "GameConfig \<Rightarrow> Point \<Rightarrow> bool" where
  "in_range cfg l =
     (fst (xRange cfg) \<le> pt_x l \<and> pt_x l \<le> snd (xRange cfg) \<and>
      fst (yRange cfg) \<le> pt_y l \<and> pt_y l \<le> snd (yRange cfg))"

definition in_inset :: "Dimensions \<Rightarrow> Point \<Rightarrow> bool" where
  "in_inset dims p =
     (padding \<le> pt_x p \<and> pt_x p \<le> width dims - padding \<and>
      padding \<le> pt_y p \<and> pt_y p \<le> height dims - padding)"

section \<open>Game state controller (App.tsx)\<close>

subsection \<open>Loading the persisted progress\<close>

datatype json =
    JNull
  | JBool bool
  | JNumber real
  | JString string
  | JArray "json list"
  | JObject "(string \<times> json) list"

datatype parse_result = SyntaxError | Parsed json

fun levelKey :: "DifficultyLevel \<Rightarrow> string" where
  "levelKey Intro = ''INTRO''"
| "levelKey Advanced = ''ADVANCED''"
| "levelKey Challenge = ''CHALLENGE''"
| "levelKey Hell = ''HELL''"

definition zeroProgress :: json where
  "zeroProgress =
     JObject [(levelKey Intro, JNumber 0), (levelKey Advanced, JNumber 0),
              (levelKey Challenge, JNumber 0), (levelKey Hell, JNumber 0)]"

text \<open>
  The initialiser of the \<open>progress\<close> state. \<open>saved\<close> is what \<open>localStorage.getItem\<close>
  returned (\<open>None\<close> for \<open>null\<close>); the empty string is falsy. \<open>JSON.parse\<close> belongs to
  the platform and is a parameter: it either throws a syntax error, which is caught, or
  returns a value, which is returned as it is.
\<close>

definition loadProgress :: "(string \<Rightarrow> parse_result) \<Rightarrow> string option \<Rightarrow> json" where
  "loadProgress JSON_parse saved =
     (case saved of
        None \<Rightarrow> zeroProgress
      | Some s \<Rightarrow>
          if s = [] then zeroProgress
          else (case JSON_parse s of
                  Parsed v \<Rightarrow> v
                | SyntaxError \<Rightarrow> zeroProgress))"

text \<open>A mapping of each difficulty id to a non-negative integer.\<close>

fun isCount :: "json option \<Rightarrow> bool" where
  "isCount (Some (JNumber r)) = (0 \<le> r \<and> r = of_int \<lfloor>r\<rfloor>)"
| "isCount _ = False"

fun isProgressMapping :: "json \<Rightarrow> bool" where
  "isProgressMapping (JObject kvs) =
     (isCount (map_of kvs (levelKey Intro)) \<and> isCount (map_of kvs (levelKey Advanced)) \<and>
      isCount (map_of kvs (levelKey Challenge)) \<and> isCount (map_of kvs (levelKey Hell)))"
| "isProgressMapping _ = False"

text \<open>
  \<open>JSON.parse\<close> maps the two characters \<open>{}\<close> to the empty object and rejects a
  text that is not JSON. This function agrees with it on \<open>{}\<close> and on every text that
  is not JSON, and stands for it where such a stored value is evaluated.
\<close>

definition JSON_parse_empty_object :: "string \<Rightarrow> parse_result" where
  "JSON_parse_empty_object s = (if s = ''{}'' then Parsed (JObject []) else SyntaxError)"

subsection \<open>State\<close>

text \<open>
  The progress state at its declared type, a record of numbers by difficulty; a key may
  be missing at run time, which the update \<open>prev[mode] || 0\<close> provides for.
\<close>

type_synonym Progress = "DifficultyLevel \<rightharpoonup> real"

record LastResult =
  success :: bool
  clickPos :: Point
  timestamp :: int

text \<open>
  The feedback line. The constructors stand for the five texts of the source in the
  order in which they occur there; the last one carries the two rounded numbers that
  are printed into the text.
\<close>

datatype Feedback =
    FeedbackInitial
  | FeedbackNewGame
  | FeedbackFound
  | FeedbackNext
  | FeedbackMissed real real

text \<open>
  A pending \<open>setTimeout\<close> callback. The callback calls the \<open>generateNewTarget\<close> of the
  render in which the click was handled, which has captured the configuration of the
  mode of that render.
\<close>

record Timer =
  due :: int
  capturedMode :: DifficultyLevel

record AppState =
  progress :: Progress
  mode :: DifficultyLevel
  target :: Point
  hoverPos :: Point
  score :: int
  feedback :: Feedback
  lastResult :: "LastResult option"
  timers :: "Timer list"

subsection \<open>Unlock gating\<close>

datatype ReqText = NoRequirement | Requires DifficultyLevel "real option"

record LockStatus =
  isLocked :: bool
  reqText :: ReqText

text \<open>
  \<open>current < UNLOCK_THRESHOLD\<close>, where \<open>current\<close> is \<open>undefined\<close> for a missing key
  and the comparison is then false.
\<close>

definition below_threshold :: "real option \<Rightarrow> bool" where
  "below_threshold current = (case current of None \<Rightarrow> False | Some c \<Rightarrow> c < UNLOCK_THRESHOLD)"

text \<open>
  The four branches of \<open>getLockStatus\<close>; its last line is reached for no value of the
  enumeration.
\<close>

fun getLockStatus :: "Progress \<Rightarrow> DifficultyLevel \<Rightarrow> LockStatus" where
  "getLockStatus prog Intro = \<lparr>isLocked = False, reqText = NoRequirement\<rparr>"
| "getLockStatus prog Advanced =
     \<lparr>isLocked = below_threshold (prog Intro), reqText = Requires Intro (prog Intro)\<rparr>"
| "getLockStatus prog Challenge =
     \<lparr>isLocked = below_threshold (prog Advanced), reqText = Requires Advanced (prog Advanced)\<rparr>"
| "getLockStatus prog Hell =
     \<lparr>isLocked = below_threshold (prog Challenge), reqText = Requires Challenge (prog Challenge)\<rparr>"

subsection \<open>Target generation\<close>

text \<open>
  \<open>getRandomCoord\<close>, with the value of \<open>Math.random()\<close> as the argument \<open>r\<close>
  (\<open>0 \<le> r < 1\<close>). The divisor is the \<open>targetStep\<close> of the static table.
\<close>

definition getRandomCoord :: "real \<Rightarrow> real \<Rightarrow> real \<Rightarrow> real \<Rightarrow> real" where
  "getRandomCoord lo hi step r =
     (let steps = \<lfloor>(hi - lo) / step\<rfloor>;
          randomStep = \<lfloor>r * (of_int steps + 1)\<rfloor>
      in lo + of_int randomStep * step)"

definition generateNewTarget :: "GameConfig \<Rightarrow> real \<Rightarrow> real \<Rightarrow> Point" where
  "generateNewTarget cfg rx ry =
     \<lparr>pt_x = getRandomCoord (fst (xRange cfg)) (snd (xRange cfg)) (targetStep cfg) rx,
      pt_y = getRandomCoord (fst (yRange cfg)) (snd (yRange cfg)) (targetStep cfg) ry\<rparr>"

subsection \<open>Transitions\<close>

text \<open>The effect that runs when the mode has changed.\<close>

definition resetOnModeChange :: "real \<Rightarrow> real \<Rightarrow> AppState \<Rightarrow> AppState" where
  "resetOnModeChange rx ry st =
     st\<lparr>target := generateNewTarget (GAME_MODES (mode st)) rx ry,
        score := 0,
        lastResult := None,
        feedback := FeedbackNewGame\<rparr>"

text \<open>
  A click on the button of mode \<open>m\<close>: \<open>!isLocked && setMode(m)\<close>. Setting the mode to
  its present value renders nothing anew, so the effect does not run.
\<close>

definition modeButtonClick :: "DifficultyLevel \<Rightarrow> real \<Rightarrow> real \<Rightarrow> AppState \<Rightarrow> AppState" where
  "modeButtonClick m rx ry st =
     (if isLocked (getLockStatus (progress st) m) then st
      else if m = mode st then st
      else resetOnModeChange rx ry (st\<lparr>mode := m\<rparr>))"

definition distance :: "Point \<Rightarrow> Point \<Rightarrow> real" where
  "distance c t =
     (let dx = pt_x c - pt_x t; dy = pt_y c - pt_y t in sqrt (dx * dx + dy * dy))"

text \<open>\<open>prev[mode] || 0\<close>: a missing key and a zero both give zero.\<close>

definition count_or_zero :: "real option \<Rightarrow> real" where
  "count_or_zero v = (case v of None \<Rightarrow> 0 | Some c \<Rightarrow> if c = 0 then 0 else c)"

text \<open>
  \<open>handleCanvasClick\<close>, with \<open>Date.now()\<close> as the argument \<open>now\<close>. On success the
  callback is scheduled 1500 ms ahead. The confetti call changes no state and is left
  out, and so is the effect that writes the progress record to local storage after each
  change of it: the persisted counts are those of the record.
\<close>

definition handleCanvasClick :: "int \<Rightarrow> Point \<Rightarrow> AppState \<Rightarrow> AppState" where
  "handleCanvasClick now c st =
     (let config = GAME_MODES (mode st);
          isSuccess = (distance c (target st) \<le> tolerance config)
      in if isSuccess then
           st\<lparr>score := score st + 1,
              progress := (progress st)(mode st \<mapsto> count_or_zero (progress st (mode st)) + 1),
              feedback := FeedbackFound,
              lastResult := Some \<lparr>success = True, clickPos = target st, timestamp = now\<rparr>,
              timers := timers st @ [\<lparr>due = now + 1500, capturedMode = mode st\<rparr>]\<rparr>
         else
           st\<lparr>feedback := FeedbackMissed (Math_round (pt_x c)) (Math_round (pt_y c)),
              lastResult := Some \<lparr>success = False, clickPos = c, timestamp = now\<rparr>\<rparr>)"

text \<open>The body of the scheduled callback, for the configuration it has captured.\<close>

definition timeoutCallback :: "GameConfig \<Rightarrow> real \<Rightarrow> real \<Rightarrow> AppState \<Rightarrow> AppState" where
  "timeoutCallback cfg rx ry st =
     st\<lparr>target := generateNewTarget cfg rx ry,
        lastResult := None,
        feedback := FeedbackNext\<rparr>"

text \<open>
  The oldest pending callback runs once its time has come. All delays are equal, so the
  callbacks are due in the order in which they were scheduled.
\<close>

definition fireTimer :: "int \<Rightarrow> real \<Rightarrow> real \<Rightarrow> AppState \<Rightarrow> AppState" where
  "fireTimer now rx ry st =
     (case timers st of
        [] \<Rightarrow> st
      | t # ts \<Rightarrow>
          if due t \<le> now
          then timeoutCallback (GAME_MODES (capturedMode t)) rx ry (st\<lparr>timers := ts\<rparr>)
          else st)"

text \<open>
  A click on the canvas, from the pointer event to the new state. \<open>None\<close> stands for the
  click whose point has no finite coordinates.
\<close>

definition canvasClick ::
  "Dimensions \<Rightarrow> real \<times> real \<Rightarrow> real \<times> real \<Rightarrow> int \<Rightarrow> AppState \<Rightarrow> AppState option" where
  "canvasClick dims client rect now st =
     (case handleClick (GAME_MODES (mode st)) dims client rect of
        None \<Rightarrow> None
      | Some l \<Rightarrow> Some (handleCanvasClick now l st))"

text \<open>
  The state of the first render, for the progress that was loaded. The five feedback
  texts and the other initial values are those of the \<open>useState\<close> calls.
\<close>

definition initialState :: "Progress \<Rightarrow> AppState" where
  "initialState prog =
     \<lparr>progress = prog, mode = Intro, target = \<lparr>pt_x = 3, pt_y = 5\<rparr>,
      hoverPos = \<lparr>pt_x = 0, pt_y = 0\<rparr>, score = 0, feedback = FeedbackInitial,
      lastResult = None, timers = []\<rparr>"

text \<open>
  After the first render the mode effect runs once. With the random numbers 0.3 and 0.5
  it generates the target (3, 5) in the introductory tier.
\<close>

definition mountedState :: "Progress \<Rightarrow> AppState" where
  "mountedState prog = resetOnModeChange (3 / 10) (1 / 2) (initialState prog)"

text \<open>A progress record with a given count for the introductory tier.\<close>

definition introCount :: "real \<Rightarrow> Progress" where
  "introCount n = [Intro \<mapsto> n, Advanced \<mapsto> 0, Challenge \<mapsto> 0, Hell \<mapsto> 0]"

subsection \<open>A run with a mode switch inside the delay\<close>

text \<open>
  The player has 20 hits in the introductory tier and hits the target (3, 5) at time 0,
  switches to the Advanced tier, misses there at time 700, and at time 1500 the callback
  of the hit runs.
\<close>

definition afterHit :: AppState where
  "afterHit = handleCanvasClick 0 \<lparr>pt_x = 3, pt_y = 5\<rparr> (mountedState (introCount 20))"

definition afterSwitch :: AppState where
  "afterSwitch = modeButtonClick Advanced (1 / 4) (3 / 4) afterHit"

definition afterMiss :: AppState where
  "afterMiss = handleCanvasClick 700 \<lparr>pt_x = 0, pt_y = 0\<rparr> afterSwitch"

definition afterTimeout :: AppState where
  "afterTimeout = fireTimer 1500 (9 / 10) (9 / 10) afterMiss"

section \<open>Target generation stays on the grid\<close>

lemma random_index_bounds:
  assumes "(0::real) \<le> r" "r < 1" "(0::int) \<le> n"
  shows "0 \<le> \<lfloor>r * (of_int n + 1)\<rfloor> \<and> \<lfloor>r * (of_int n + 1)\<rfloor> \<le> n"
proof
  have pos: "(0::real) < of_int n + 1" using assms(3) by linarith
  have "0 \<le> r * (of_int n + 1)" using assms(1) pos by simp
  then show "0 \<le> \<lfloor>r * (of_int n + 1)\<rfloor>" by simp
  have "r * (of_int n + 1) < 1 * (of_int n + 1)"
    using assms(2) pos by (rule mult_strict_right_mono)
  then have "r * (of_int n + 1) < of_int (n + 1)" by simp
  then have "\<lfloor>r * (of_int n + 1)\<rfloor> < n + 1" by (simp only: floor_less_iff)
  then show "\<lfloor>r * (of_int n + 1)\<rfloor> \<le> n" by simp
qed

lemma steps_nonneg:
  assumes "lo < hi" "(0::real) < step"
  shows "0 \<le> \<lfloor>(hi - lo) / step\<rfloor>"
  using assms by simp

lemma getRandomCoord_form:
  assumes "lo < hi" "0 < step" "0 \<le> r" "r < 1"
  shows "\<exists>k::int. 0 \<le> k \<and> k \<le> \<lfloor>(hi - lo) / step\<rfloor> \<and>
            getRandomCoord lo hi step r = lo + of_int k * step"
proof -
  let ?n = "\<lfloor>(hi - lo) / step\<rfloor>"
  let ?k = "\<lfloor>r * (of_int ?n + 1)\<rfloor>"
  have "0 \<le> ?n" using assms(1,2) by (rule steps_nonneg)
  with assms(3,4) have "0 \<le> ?k \<and> ?k \<le> ?n" by (rule random_index_bounds)
  moreover have "getRandomCoord lo hi step r = lo + of_int ?k * step"
    by (simp add: getRandomCoord_def Let_def)
  ultimately show ?thesis by blast
qed

lemma getRandomCoord_advanced:
  assumes "0 \<le> r" "r < 1"
  shows "getRandomCoord (- 10) 10 1 r \<in> \<int> \<and> - 10 \<le> getRandomCoord (- 10) 10 1 r \<and>
         getRandomCoord (- 10) 10 1 r \<le> 10"
proof -
  obtain k :: int where k: "0 \<le> k" "k \<le> \<lfloor>(10 - (- 10)) / (1::real)\<rfloor>"
      "getRandomCoord (- 10) 10 1 r = - 10 + of_int k * 1"
    using getRandomCoord_form [of "- 10" 10 1 r] assms by auto
  have "k \<le> 20" using k(2) by simp
  then show ?thesis using k(1,3) by simp
qed

lemma config_ok_GAME_MODES: "config_ok (GAME_MODES m)"
  by (cases m) (simp_all add: config_ok_def)

text \<open>
  C4. With both random numbers in the half-open unit interval, each coordinate of a
  generated target is the lower bound of its range plus \<open>k\<close> target steps, for an
  integer \<open>k\<close> between 0 and the floor of the span over the step. In the Advanced tier
  both coordinates are integers between -10 and 10, and the origin is generated when
  both random numbers are one half.
\<close>

theorem generated_target_on_grid:
  assumes "0 \<le> rx" "rx < 1" "0 \<le> ry" "ry < 1"
  shows "(config_ok cfg \<longrightarrow>
           (\<exists>k::int. 0 \<le> k \<and> k \<le> \<lfloor>(snd (xRange cfg) - fst (xRange cfg)) / targetStep cfg\<rfloor> \<and>
              pt_x (generateNewTarget cfg rx ry) = fst (xRange cfg) + of_int k * targetStep cfg) \<and>
           (\<exists>k::int. 0 \<le> k \<and> k \<le> \<lfloor>(snd (yRange cfg) - fst (yRange cfg)) / targetStep cfg\<rfloor> \<and>
              pt_y (generateNewTarget cfg rx ry) = fst (yRange cfg) + of_int k * targetStep cfg)) \<and>
         pt_x (generateNewTarget (GAME_MODES Advanced) rx ry) \<in> \<int> \<and>
         - 10 \<le> pt_x (generateNewTarget (GAME_MODES Advanced) rx ry) \<and>
         pt_x (generateNewTarget (GAME_MODES Advanced) rx ry) \<le> 10 \<and>
         pt_y (generateNewTarget (GAME_MODES Advanced) rx ry) \<in> \<int> \<and>
         - 10 \<le> pt_y (generateNewTarget (GAME_MODES Advanced) rx ry) \<and>
         pt_y (generateNewTarget (GAME_MODES Advanced) rx ry) \<le> 10 \<and>
         generateNewTarget (GAME_MODES Advanced) (1 / 2) (1 / 2) = \<lparr>pt_x = 0, pt_y = 0\<rparr>"
proof -
  have general: "config_ok cfg \<longrightarrow>
           (\<exists>k::int. 0 \<le> k \<and> k \<le> \<lfloor>(snd (xRange cfg) - fst (xRange cfg)) / targetStep cfg\<rfloor> \<and>
              pt_x (generateNewTarget cfg rx ry) = fst (xRange cfg) + of_int k * targetStep cfg) \<and>
           (\<exists>k::int. 0 \<le> k \<and> k \<le> \<lfloor>(snd (yRange cfg) - fst (yRange cfg)) / targetStep cfg\<rfloor> \<and>
              pt_y (generateNewTarget cfg rx ry) = fst (yRange cfg) + of_int k * targetStep cfg)"
  proof
    assume ok: "config_ok cfg"
    then have x: "fst (xRange cfg) < snd (xRange cfg)" and y: "fst (yRange cfg) < snd (yRange cfg)"
      and s: "0 < targetStep cfg"
      by (simp_all add: config_ok_def)
    show "(\<exists>k::int. 0 \<le> k \<and> k \<le> \<lfloor>(snd (xRange cfg) - fst (xRange cfg)) / targetStep cfg\<rfloor> \<and>
              pt_x (generateNewTarget cfg rx ry) = fst (xRange cfg) + of_int k * targetStep cfg) \<and>
           (\<exists>k::int. 0 \<le> k \<and> k \<le> \<lfloor>(snd (yRange cfg) - fst (yRange cfg)) / targetStep cfg\<rfloor> \<and>
              pt_y (generateNewTarget cfg rx ry) = fst (yRange cfg) + of_int k * targetStep cfg)"
      using getRandomCoord_form [OF x s assms(1,2)] getRandomCoord_form [OF y s assms(3,4)]
      by (simp add: generateNewTarget_def)
  qed
  have ax: "pt_x (generateNewTarget (GAME_MODES Advanced) rx ry) = getRandomCoord (- 10) 10 1 rx"
    and ay: "pt_y (generateNewTarget (GAME_MODES Advanced) rx ry) = getRandomCoord (- 10) 10 1 ry"
    by (simp_all add: generateNewTarget_def)
  have origin: "generateNewTarget (GAME_MODES Advanced) (1 / 2) (1 / 2) = \<lparr>pt_x = 0, pt_y = 0\<rparr>"
    by (simp add: generateNewTarget_def getRandomCoord_def)
  show ?thesis
    using general getRandomCoord_advanced [OF assms(1,2)] getRandomCoord_advanced [OF assms(3,4)]
      origin
    by (simp only: ax ay)
qed

theorem generated_target_on_grid_witness:
  "config_ok (GAME_MODES Challenge) \<and> (0::real) \<le> 3 / 10 \<and> (3::real) / 10 < 1 \<and>
   (0::real) \<le> 9 / 10 \<and> (9::real) / 10 < 1 \<and>
   generateNewTarget (GAME_MODES Challenge) (3 / 10) (9 / 10) = \<lparr>pt_x = - 20, pt_y = 40\<rparr> \<and>
   (\<exists>k::int. 0 \<le> k \<and> k \<le> 20 \<and>
      pt_x (generateNewTarget (GAME_MODES Challenge) (3 / 10) (9 / 10)) = - 50 + of_int k * 5) \<and>
   pt_x (generateNewTarget (GAME_MODES Advanced) (3 / 10) (9 / 10)) \<in> \<int>"
proof -
  have ok: "config_ok (GAME_MODES Challenge)" by (simp add: config_ok_def)
  have r: "(0::real) \<le> 3 / 10" "(3::real) / 10 < 1" "(0::real) \<le> 9 / 10" "(9::real) / 10 < 1"
    by simp_all
  have v: "generateNewTarget (GAME_MODES Challenge) (3 / 10) (9 / 10) = \<lparr>pt_x = - 20, pt_y = 40\<rparr>"
    by (simp add: generateNewTarget_def getRandomCoord_def)
  have "\<lfloor>(snd (xRange (GAME_MODES Challenge)) - fst (xRange (GAME_MODES Challenge))) /
          targetStep (GAME_MODES Challenge)\<rfloor> = 20"
    by simp
  then show ?thesis
    using generated_target_on_grid [OF r, of "GAME_MODES Challenge"] ok v by simp
qed

section \<open>Helper facts\<close>

lemma distance_le_iff:
  assumes "0 \<le> t"
  shows "distance c p \<le> t \<longleftrightarrow>
           (pt_x c - pt_x p) * (pt_x c - pt_x p) + (pt_y c - pt_y p) * (pt_y c - pt_y p) \<le> t * t"
proof -
  have "t = sqrt (t * t)" using assms by simp
  then have "distance c p \<le> t \<longleftrightarrow> distance c p \<le> sqrt (t * t)" by simp
  also have "\<dots> \<longleftrightarrow>
      (pt_x c - pt_x p) * (pt_x c - pt_x p) + (pt_y c - pt_y p) * (pt_y c - pt_y p) \<le> t * t"
    unfolding distance_def Let_def by (rule real_sqrt_le_iff)
  finally show ?thesis .
qed

lemma tolerance_nonneg: "0 \<le> tolerance (GAME_MODES m)"
  by (cases m) simp_all

section \<open>Unlock gating\<close>

lemma missing_count_unlocks: "prog Intro = None \<Longrightarrow> \<not> isLocked (getLockStatus prog Advanced)"
  by (simp add: below_threshold_def)

text \<open>
  Gating on a record that holds the counts. The introductory tier is never locked. Each
  later tier, when the count of the tier just below it is present in the progress record,
  is locked exactly when that count is below 20: 19 locks, 20 unlocks. The button of a
  locked tier leaves the state as it is.
\<close>

theorem unlock_gating:
  "\<not> isLocked (getLockStatus prog Intro) \<and>
   (prog Intro = Some c \<longrightarrow> isLocked (getLockStatus prog Advanced) = (c < 20)) \<and>
   (prog Advanced = Some c \<longrightarrow> isLocked (getLockStatus prog Challenge) = (c < 20)) \<and>
   (prog Challenge = Some c \<longrightarrow> isLocked (getLockStatus prog Hell) = (c < 20)) \<and>
   (isLocked (getLockStatus (progress st) m) \<longrightarrow> modeButtonClick m rx ry st = st)"
  by (simp add: below_threshold_def UNLOCK_THRESHOLD_def modeButtonClick_def)

theorem unlock_gating_witness:
  "isLocked (getLockStatus [Intro \<mapsto> 19] Advanced) \<and>
   \<not> isLocked (getLockStatus [Intro \<mapsto> 20] Advanced) \<and>
   isLocked (getLockStatus [Advanced \<mapsto> 19] Challenge) \<and>
   \<not> isLocked (getLockStatus [Challenge \<mapsto> 20] Hell) \<and>
   modeButtonClick Advanced (1 / 2) (1 / 2) (initialState [Intro \<mapsto> 19]) =
     initialState [Intro \<mapsto> 19]"
proof -
  let ?st = "initialState [Intro \<mapsto> 19]"
  have a: "isLocked (getLockStatus [Intro \<mapsto> 19] Advanced)"
    using unlock_gating [of "[Intro \<mapsto> 19]" 19] by simp
  have b: "\<not> isLocked (getLockStatus [Intro \<mapsto> 20] Advanced)"
    using unlock_gating [of "[Intro \<mapsto> 20]" 20] by simp
  have c: "isLocked (getLockStatus [Advanced \<mapsto> 19] Challenge)"
    using unlock_gating [of "[Advanced \<mapsto> 19]" 19] by simp
  have d: "\<not> isLocked (getLockStatus [Challenge \<mapsto> 20] Hell)"
    using unlock_gating [of "[Challenge \<mapsto> 20]" 20] by simp
  have p: "progress ?st = [Intro \<mapsto> 19]"
    by (simp add: initialState_def)
  have "isLocked (getLockStatus (progress ?st) Advanced) \<longrightarrow>
          modeButtonClick Advanced (1 / 2) (1 / 2) ?st = ?st"
    using unlock_gating [of "[Intro \<mapsto> 19]" 19 ?st Advanced "1 / 2" "1 / 2"] by blast
  then have e: "modeButtonClick Advanced (1 / 2) (1 / 2) ?st = ?st"
    using a by (simp only: p)
  from a b c d e show ?thesis by blast
qed

text \<open>
  C5, evaluated. The stored text \<open>{}\<close> loads as a record without any count. With that
  record no tier has a completion, and the update of a hit reads a missing count as 0,
  which is below the threshold of 20; yet \<open>getLockStatus\<close> compares \<open>undefined\<close> with
  the threshold, which is false, so Advanced, Challenge and Hell are all unlocked, and
  the button of the Hell tier switches the mode.
\<close>

theorem missing_count_leaves_tiers_unlocked:
  "progress (mountedState Map.empty) = Map.empty \<and>
   mode (mountedState Map.empty) = Intro \<and>
   score (mountedState Map.empty) = 0 \<and>
   count_or_zero (progress (mountedState Map.empty) Intro) = 0 \<and>
   count_or_zero (progress (mountedState Map.empty) Intro) < UNLOCK_THRESHOLD \<and>
   \<not> isLocked (getLockStatus (progress (mountedState Map.empty)) Advanced) \<and>
   \<not> isLocked (getLockStatus (progress (mountedState Map.empty)) Challenge) \<and>
   \<not> isLocked (getLockStatus (progress (mountedState Map.empty)) Hell) \<and>
   reqText (getLockStatus (progress (mountedState Map.empty)) Hell) = Requires Challenge None \<and>
   mode (modeButtonClick Hell (1 / 2) (1 / 2) (mountedState Map.empty)) = Hell \<and>
   modeButtonClick Hell (1 / 2) (1 / 2) (mountedState Map.empty) \<noteq> mountedState Map.empty"
proof -
  let ?st = "mountedState Map.empty"
  have p: "progress ?st = Map.empty" and m: "mode ?st = Intro" and s: "score ?st = 0"
    by (simp_all add: mountedState_def initialState_def resetOnModeChange_def)
  have c: "count_or_zero (progress ?st Intro) = 0"
    by (simp add: p count_or_zero_def)
  have t: "count_or_zero (progress ?st Intro) < UNLOCK_THRESHOLD"
    by (simp add: c UNLOCK_THRESHOLD_def)
  have a: "\<not> isLocked (getLockStatus (progress ?st) Advanced)"
    and b: "\<not> isLocked (getLockStatus (progress ?st) Challenge)"
    and h: "\<not> isLocked (getLockStatus (progress ?st) Hell)"
    and r: "reqText (getLockStatus (progress ?st) Hell) = Requires Challenge None"
    by (simp_all add: p below_threshold_def)
  have sw: "mode (modeButtonClick Hell (1 / 2) (1 / 2) ?st) = Hell"
    using h by (simp add: modeButtonClick_def m resetOnModeChange_def)
  then have ne: "modeButtonClick Hell (1 / 2) (1 / 2) ?st \<noteq> ?st"
    using m by auto
  from p m s c t a b h r sw ne show ?thesis by (intro conjI)
qed

section \<open>Mode switch\<close>

text \<open>
  C9. The effect of a mode change clears the last result, sets the session score to 0,
  generates a target for the configuration of the mode and sets the new-game feedback,
  and it keeps the progress record. A click on the button of an unlocked mode other than
  the present one changes the mode and runs this effect; no click on a mode button
  changes the progress record.
\<close>

theorem mode_switch_resets_session:
  "lastResult (resetOnModeChange rx ry st) = None \<and>
   score (resetOnModeChange rx ry st) = 0 \<and>
   target (resetOnModeChange rx ry st) = generateNewTarget (GAME_MODES (mode st)) rx ry \<and>
   feedback (resetOnModeChange rx ry st) = FeedbackNewGame \<and>
   progress (resetOnModeChange rx ry st) = progress st \<and>
   (\<not> isLocked (getLockStatus (progress st) m) \<and> m \<noteq> mode st \<longrightarrow>
      mode (modeButtonClick m rx ry st) = m \<and>
      lastResult (modeButtonClick m rx ry st) = None \<and>
      score (modeButtonClick m rx ry st) = 0 \<and>
      target (modeButtonClick m rx ry st) = generateNewTarget (GAME_MODES m) rx ry \<and>
      feedback (modeButtonClick m rx ry st) = FeedbackNewGame) \<and>
   progress (modeButtonClick m rx ry st) = progress st"
  by (simp add: resetOnModeChange_def modeButtonClick_def)

theorem mode_switch_resets_session_witness:
  "\<not> isLocked (getLockStatus (progress (initialState [Intro \<mapsto> 20])) Advanced) \<and>
   Advanced \<noteq> mode (initialState [Intro \<mapsto> 20]) \<and>
   modeButtonClick Advanced (1 / 4) (3 / 4) ((initialState [Intro \<mapsto> 20])\<lparr>score := 7\<rparr>) =
     \<lparr>progress = [Intro \<mapsto> 20], mode = Advanced, target = \<lparr>pt_x = - 5, pt_y = 5\<rparr>,
      hoverPos = \<lparr>pt_x = 0, pt_y = 0\<rparr>, score = 0, feedback = FeedbackNewGame,
      lastResult = None, timers = []\<rparr>"
  using mode_switch_resets_session
    [of "1 / 4" "3 / 4" "(initialState [Intro \<mapsto> 20])\<lparr>score := 7\<rparr>" Advanced]
  by (simp add: initialState_def below_threshold_def UNLOCK_THRESHOLD_def modeButtonClick_def
      resetOnModeChange_def generateNewTarget_def getRandomCoord_def)

section \<open>Click evaluation\<close>

lemma handleCanvasClick_success:
  assumes "distance c (target st) \<le> tolerance (GAME_MODES (mode st))"
  shows "handleCanvasClick now c st =
           st\<lparr>score := score st + 1,
              progress := (progress st)(mode st \<mapsto> count_or_zero (progress st (mode st)) + 1),
              feedback := FeedbackFound,
              lastResult := Some \<lparr>success = True, clickPos = target st, timestamp = now\<rparr>,
              timers := timers st @ [\<lparr>due = now + 1500, capturedMode = mode st\<rparr>]\<rparr>"
  using assms by (simp add: handleCanvasClick_def Let_def)

lemma handleCanvasClick_failure:
  assumes "\<not> distance c (target st) \<le> tolerance (GAME_MODES (mode st))"
  shows "handleCanvasClick now c st =
           st\<lparr>feedback := FeedbackMissed (Math_round (pt_x c)) (Math_round (pt_y c)),
              lastResult := Some \<lparr>success = False, clickPos = c, timestamp = now\<rparr>\<rparr>"
  using assms by (simp add: handleCanvasClick_def Let_def)

lemma count_or_zero_Some: "count_or_zero (Some k) = k"
  by (simp add: count_or_zero_def)

lemma fireTimer_single:
  assumes "timers st = [t]"
  shows "fireTimer now rx ry st =
           (if due t \<le> now
            then timeoutCallback (GAME_MODES (capturedMode t)) rx ry (st\<lparr>timers := []\<rparr>)
            else st)"
  using assms by (simp add: fireTimer_def)

text \<open>
  C3. A click succeeds exactly when its Euclidean distance to the target is at most the
  tolerance of the mode. On success the session score and the count of the present mode
  in the progress record go up by one, the last result is a success placed at the target,
  and a callback is scheduled 1500 ms ahead; when no other callback is pending it does
  nothing before that time, and from then on it sets a newly generated target and clears
  the result. On failure the last result is a failure placed at the click, the feedback
  carries the rounded coordinates of the click, and progress, score and target stay.
\<close>

theorem click_evaluation:
  "(distance c (target st) \<le> tolerance (GAME_MODES (mode st)) \<longrightarrow>
      score (handleCanvasClick now c st) = score st + 1 \<and>
      progress (handleCanvasClick now c st) =
        (progress st)(mode st \<mapsto> count_or_zero (progress st (mode st)) + 1) \<and>
      (progress st (mode st) = Some k \<longrightarrow>
         progress (handleCanvasClick now c st) (mode st) = Some (k + 1)) \<and>
      lastResult (handleCanvasClick now c st) =
        Some \<lparr>success = True, clickPos = target st, timestamp = now\<rparr> \<and>
      target (handleCanvasClick now c st) = target st \<and>
      timers (handleCanvasClick now c st) =
        timers st @ [\<lparr>due = now + 1500, capturedMode = mode st\<rparr>] \<and>
      (timers st = [] \<longrightarrow>
         (t < now + 1500 \<longrightarrow>
            fireTimer t rx ry (handleCanvasClick now c st) = handleCanvasClick now c st) \<and>
         (now + 1500 \<le> t \<longrightarrow>
            target (fireTimer t rx ry (handleCanvasClick now c st)) =
              generateNewTarget (GAME_MODES (mode st)) rx ry \<and>
            lastResult (fireTimer t rx ry (handleCanvasClick now c st)) = None \<and>
            timers (fireTimer t rx ry (handleCanvasClick now c st)) = []))) \<and>
   (\<not> distance c (target st) \<le> tolerance (GAME_MODES (mode st)) \<longrightarrow>
      lastResult (handleCanvasClick now c st) =
        Some \<lparr>success = False, clickPos = c, timestamp = now\<rparr> \<and>
      feedback (handleCanvasClick now c st) =
        FeedbackMissed (Math_round (pt_x c)) (Math_round (pt_y c)) \<and>
      progress (handleCanvasClick now c st) = progress st \<and>
      score (handleCanvasClick now c st) = score st \<and>
      target (handleCanvasClick now c st) = target st \<and>
      timers (handleCanvasClick now c st) = timers st)"
proof (intro conjI impI)
  assume hit: "distance c (target st) \<le> tolerance (GAME_MODES (mode st))"
  note s = handleCanvasClick_success [OF hit, of now]
  show "score (handleCanvasClick now c st) = score st + 1" by (simp add: s)
  show "progress (handleCanvasClick now c st) =
        (progress st)(mode st \<mapsto> count_or_zero (progress st (mode st)) + 1)"
    by (simp add: s)
  show "lastResult (handleCanvasClick now c st) =
        Some \<lparr>success = True, clickPos = target st, timestamp = now\<rparr>"
    by (simp add: s)
  show "target (handleCanvasClick now c st) = target st" by (simp add: s)
  show tm: "timers (handleCanvasClick now c st) =
        timers st @ [\<lparr>due = now + 1500, capturedMode = mode st\<rparr>]"
    by (simp add: s)
  {
    assume "progress st (mode st) = Some k"
    then show "progress (handleCanvasClick now c st) (mode st) = Some (k + 1)"
      by (simp add: s count_or_zero_Some)
  }
  {
    assume "timers st = []"
    with tm have one: "timers (handleCanvasClick now c st) =
        [\<lparr>due = now + 1500, capturedMode = mode st\<rparr>]"
      by simp
    note f = fireTimer_single [OF one, of t rx ry]
    {
      assume "t < now + 1500"
      then show "fireTimer t rx ry (handleCanvasClick now c st) = handleCanvasClick now c st"
        by (simp add: f)
    }
    {
      assume late: "now + 1500 \<le> t"
      show "target (fireTimer t rx ry (handleCanvasClick now c st)) =
              generateNewTarget (GAME_MODES (mode st)) rx ry"
        using late by (simp add: f timeoutCallback_def)
      show "lastResult (fireTimer t rx ry (handleCanvasClick now c st)) = None"
        using late by (simp add: f timeoutCallback_def)
      show "timers (fireTimer t rx ry (handleCanvasClick now c st)) = []"
        using late by (simp add: f timeoutCallback_def)
    }
  }
next
  assume miss: "\<not> distance c (target st) \<le> tolerance (GAME_MODES (mode st))"
  note s = handleCanvasClick_failure [OF miss, of now]
  show "lastResult (handleCanvasClick now c st) =
        Some \<lparr>success = False, clickPos = c, timestamp = now\<rparr>"
    by (simp add: s)
  show "feedback (handleCanvasClick now c st) =
        FeedbackMissed (Math_round (pt_x c)) (Math_round (pt_y c))"
    by (simp add: s)
  show "progress (handleCanvasClick now c st) = progress st" by (simp add: s)
  show "score (handleCanvasClick now c st) = score st" by (simp add: s)
  show "target (handleCanvasClick now c st) = target st" by (simp add: s)
  show "timers (handleCanvasClick now c st) = timers st" by (simp add: s)
qed


theorem click_evaluation_witness:
  "distance \<lparr>pt_x = 3, pt_y = 5\<rparr> (target (initialState [Intro \<mapsto> 0])) \<le>
     tolerance (GAME_MODES (mode (initialState [Intro \<mapsto> 0]))) \<and>
   handleCanvasClick 1000 \<lparr>pt_x = 3, pt_y = 5\<rparr> (initialState [Intro \<mapsto> 0]) =
     \<lparr>progress = [Intro \<mapsto> 1], mode = Intro, target = \<lparr>pt_x = 3, pt_y = 5\<rparr>,
      hoverPos = \<lparr>pt_x = 0, pt_y = 0\<rparr>, score = 1, feedback = FeedbackFound,
      lastResult = Some \<lparr>success = True, clickPos = \<lparr>pt_x = 3, pt_y = 5\<rparr>, timestamp = 1000\<rparr>,
      timers = [\<lparr>due = 2500, capturedMode = Intro\<rparr>]\<rparr> \<and>
   score (handleCanvasClick 1000 \<lparr>pt_x = 3, pt_y = 5\<rparr> (initialState [Intro \<mapsto> 0])) = 1 \<and>
   progress (handleCanvasClick 1000 \<lparr>pt_x = 3, pt_y = 5\<rparr> (initialState [Intro \<mapsto> 0])) Intro
     = Some 1 \<and>
   lastResult (fireTimer 2500 (1 / 2) (1 / 2)
     (handleCanvasClick 1000 \<lparr>pt_x = 3, pt_y = 5\<rparr> (initialState [Intro \<mapsto> 0]))) = None \<and>
   target (fireTimer 2500 (1 / 2) (1 / 2)
     (handleCanvasClick 1000 \<lparr>pt_x = 3, pt_y = 5\<rparr> (initialState [Intro \<mapsto> 0]))) =
     \<lparr>pt_x = 5, pt_y = 5\<rparr> \<and>
   \<not> distance \<lparr>pt_x = 7 / 2, pt_y = 5\<rparr> (target (initialState [Intro \<mapsto> 0])) \<le>
     tolerance (GAME_MODES (mode (initialState [Intro \<mapsto> 0]))) \<and>
   handleCanvasClick 1000 \<lparr>pt_x = 7 / 2, pt_y = 5\<rparr> (initialState [Intro \<mapsto> 0]) =
     \<lparr>progress = [Intro \<mapsto> 0], mode = Intro, target = \<lparr>pt_x = 3, pt_y = 5\<rparr>,
      hoverPos = \<lparr>pt_x = 0, pt_y = 0\<rparr>, score = 0, feedback = FeedbackMissed 4 5,
      lastResult = Some \<lparr>success = False, clickPos = \<lparr>pt_x = 7 / 2, pt_y = 5\<rparr>, timestamp = 1000\<rparr>,
      timers = []\<rparr>"
proof -
  let ?st = "initialState [Intro \<mapsto> 0]"
  let ?c = "\<lparr>pt_x = 3, pt_y = 5\<rparr>"
  let ?d = "\<lparr>pt_x = 7 / 2, pt_y = 5\<rparr>"
  have st: "target ?st = \<lparr>pt_x = 3, pt_y = 5\<rparr>" "mode ?st = Intro" "score ?st = 0"
    "progress ?st = [Intro \<mapsto> 0]" "timers ?st = []"
    by (simp_all add: initialState_def)
  have hit: "distance ?c (target ?st) \<le> tolerance (GAME_MODES (mode ?st))"
    by (simp add: st distance_def)
  have "(distance ?d \<lparr>pt_x = 3, pt_y = 5\<rparr> \<le> 4 / 10) =
          ((pt_x ?d - pt_x \<lparr>pt_x = 3, pt_y = 5\<rparr>) * (pt_x ?d - pt_x \<lparr>pt_x = 3, pt_y = 5\<rparr>) +
           (pt_y ?d - pt_y \<lparr>pt_x = 3, pt_y = 5::real\<rparr>) * (pt_y ?d - pt_y \<lparr>pt_x = 3, pt_y = 5::real\<rparr>)
             \<le> 4 / 10 * (4 / 10))"
    by (rule distance_le_iff) simp
  then have miss: "\<not> distance ?d (target ?st) \<le> tolerance (GAME_MODES (mode ?st))"
    by (simp add: st)
  note h = click_evaluation [of ?c ?st 1000 0 2500 "1 / 2" "1 / 2"]
  note m = click_evaluation [of ?d ?st 1000 0 2500 "1 / 2" "1 / 2"]
  have a: "score (handleCanvasClick 1000 ?c ?st) = 1"
    using h hit by (simp add: st count_or_zero_def)
  have b: "progress (handleCanvasClick 1000 ?c ?st) Intro = Some 1"
    using h hit by (simp add: st count_or_zero_def)
  have c: "lastResult (fireTimer 2500 (1 / 2) (1 / 2) (handleCanvasClick 1000 ?c ?st)) = None"
    using h hit by (simp add: st count_or_zero_def)
  have "target (fireTimer 2500 (1 / 2) (1 / 2) (handleCanvasClick 1000 ?c ?st)) =
          generateNewTarget (GAME_MODES Intro) (1 / 2) (1 / 2)"
    using h hit by (simp add: st count_or_zero_def)
  then have d: "target (fireTimer 2500 (1 / 2) (1 / 2) (handleCanvasClick 1000 ?c ?st)) =
          \<lparr>pt_x = 5, pt_y = 5\<rparr>"
    by (simp add: generateNewTarget_def getRandomCoord_def)
  have e: "handleCanvasClick 1000 ?c ?st =
     \<lparr>progress = [Intro \<mapsto> 1], mode = Intro, target = \<lparr>pt_x = 3, pt_y = 5\<rparr>,
      hoverPos = \<lparr>pt_x = 0, pt_y = 0\<rparr>, score = 1, feedback = FeedbackFound,
      lastResult = Some \<lparr>success = True, clickPos = \<lparr>pt_x = 3, pt_y = 5\<rparr>, timestamp = 1000\<rparr>,
      timers = [\<lparr>due = 2500, capturedMode = Intro\<rparr>]\<rparr>"
    by (simp add: handleCanvasClick_success [OF hit] count_or_zero_def) (simp add: initialState_def)
  have f: "handleCanvasClick 1000 ?d ?st =
     \<lparr>progress = [Intro \<mapsto> 0], mode = Intro, target = \<lparr>pt_x = 3, pt_y = 5\<rparr>,
      hoverPos = \<lparr>pt_x = 0, pt_y = 0\<rparr>, score = 0, feedback = FeedbackMissed 4 5,
      lastResult = Some \<lparr>success = False, clickPos = \<lparr>pt_x = 7 / 2, pt_y = 5\<rparr>, timestamp = 1000\<rparr>,
      timers = []\<rparr>"
    by (simp add: handleCanvasClick_failure [OF miss] Math_round_def) (simp add: initialState_def)
  have g: "progress (handleCanvasClick 1000 ?d ?st) = progress ?st"
    using m miss by blast
  from hit miss a b c d e f show ?thesis by (intro conjI)
qed

lemma hit_on_boundary_example:
  "GAME_MODES (mode ((initialState p)\<lparr>mode := Hell, target := \<lparr>pt_x = 0, pt_y = 0\<rparr>\<rparr>)) =
     GAME_MODES Hell \<and>
   distance \<lparr>pt_x = 9, pt_y = 12\<rparr> \<lparr>pt_x = 0, pt_y = 0\<rparr> = 15 \<and>
   lastResult (handleCanvasClick 0 \<lparr>pt_x = 9, pt_y = 12\<rparr>
     ((initialState p)\<lparr>mode := Hell, target := \<lparr>pt_x = 0, pt_y = 0\<rparr>\<rparr>)) =
     Some \<lparr>success = True, clickPos = \<lparr>pt_x = 0, pt_y = 0\<rparr>, timestamp = 0\<rparr> \<and>
   lastResult (handleCanvasClick 0 \<lparr>pt_x = 9, pt_y = 1201 / 100\<rparr>
     ((initialState p)\<lparr>mode := Hell, target := \<lparr>pt_x = 0, pt_y = 0\<rparr>\<rparr>)) =
     Some \<lparr>success = False, clickPos = \<lparr>pt_x = 9, pt_y = 1201 / 100\<rparr>, timestamp = 0\<rparr>"
proof -
  let ?st = "(initialState p)\<lparr>mode := Hell, target := \<lparr>pt_x = 0, pt_y = 0\<rparr>\<rparr>"
  have st: "mode ?st = Hell" "target ?st = \<lparr>pt_x = 0, pt_y = 0\<rparr>"
    by simp_all
  have "sqrt (15 * 15) = 15" by (simp only: real_sqrt_abs2 abs_numeral)
  then have d: "distance \<lparr>pt_x = 9, pt_y = 12\<rparr> \<lparr>pt_x = 0, pt_y = 0\<rparr> = 15"
    by (simp add: distance_def)
  have hit: "distance \<lparr>pt_x = 9, pt_y = 12\<rparr> (target ?st) \<le> tolerance (GAME_MODES (mode ?st))"
    by (simp only: st d) simp
  have "(distance \<lparr>pt_x = 9, pt_y = 1201 / 100\<rparr> \<lparr>pt_x = 0, pt_y = 0\<rparr> \<le> 15) =
          ((pt_x \<lparr>pt_x = 9, pt_y = 1201 / 100::real\<rparr> - pt_x \<lparr>pt_x = 0, pt_y = 0::real\<rparr>) *
           (pt_x \<lparr>pt_x = 9, pt_y = 1201 / 100::real\<rparr> - pt_x \<lparr>pt_x = 0, pt_y = 0::real\<rparr>) +
           (pt_y \<lparr>pt_x = 9, pt_y = 1201 / 100::real\<rparr> - pt_y \<lparr>pt_x = 0, pt_y = 0::real\<rparr>) *
           (pt_y \<lparr>pt_x = 9, pt_y = 1201 / 100::real\<rparr> - pt_y \<lparr>pt_x = 0, pt_y = 0::real\<rparr>)
             \<le> 15 * 15)"
    by (rule distance_le_iff) simp
  then have miss: "\<not> distance \<lparr>pt_x = 9, pt_y = 1201 / 100\<rparr> (target ?st) \<le>
      tolerance (GAME_MODES (mode ?st))"
    by (simp add: st)
  show ?thesis
    by (simp add: handleCanvasClick_success [OF hit] handleCanvasClick_failure [OF miss] d)
qed

section \<open>The delayed callback and mode switches\<close>

lemma mountedState_eq:
  "mountedState prog =
     \<lparr>progress = prog, mode = Intro, target = \<lparr>pt_x = 3, pt_y = 5\<rparr>,
      hoverPos = \<lparr>pt_x = 0, pt_y = 0\<rparr>, score = 0, feedback = FeedbackNewGame,
      lastResult = None, timers = []\<rparr>"
  by (simp add: mountedState_def initialState_def resetOnModeChange_def generateNewTarget_def
      getRandomCoord_def)

lemma afterHit_fields:
  "mode afterHit = Intro"
  "target afterHit = \<lparr>pt_x = 3, pt_y = 5\<rparr>"
  "progress afterHit Intro = Some 21"
  "score afterHit = 1"
  "lastResult afterHit =
     Some \<lparr>success = True, clickPos = \<lparr>pt_x = 3, pt_y = 5\<rparr>, timestamp = 0\<rparr>"
  "timers afterHit = [\<lparr>due = 1500, capturedMode = Intro\<rparr>]"
  by (simp_all add: afterHit_def mountedState_eq handleCanvasClick_def distance_def
      count_or_zero_def introCount_def)

lemma afterSwitch_fields:
  "mode afterSwitch = Advanced"
  "target afterSwitch = \<lparr>pt_x = - 5, pt_y = 5\<rparr>"
  "score afterSwitch = 0"
  "lastResult afterSwitch = None"
  "timers afterSwitch = [\<lparr>due = 1500, capturedMode = Intro\<rparr>]"
proof -
  have "\<not> isLocked (getLockStatus (progress afterHit) Advanced)"
    by (simp add: afterHit_fields below_threshold_def UNLOCK_THRESHOLD_def)
  then have eq: "afterSwitch = resetOnModeChange (1 / 4) (3 / 4) (afterHit\<lparr>mode := Advanced\<rparr>)"
    by (simp add: afterSwitch_def modeButtonClick_def afterHit_fields)
  show "mode afterSwitch = Advanced" "score afterSwitch = 0" "lastResult afterSwitch = None"
    "timers afterSwitch = [\<lparr>due = 1500, capturedMode = Intro\<rparr>]"
    by (simp_all add: eq resetOnModeChange_def afterHit_fields)
  show "target afterSwitch = \<lparr>pt_x = - 5, pt_y = 5\<rparr>"
    by (simp add: eq resetOnModeChange_def generateNewTarget_def getRandomCoord_def)
qed

lemma afterMiss_fields:
  "mode afterMiss = Advanced"
  "target afterMiss = \<lparr>pt_x = - 5, pt_y = 5\<rparr>"
  "lastResult afterMiss =
     Some \<lparr>success = False, clickPos = \<lparr>pt_x = 0, pt_y = 0\<rparr>, timestamp = 700\<rparr>"
  "timers afterMiss = [\<lparr>due = 1500, capturedMode = Intro\<rparr>]"
proof -
  have "(distance \<lparr>pt_x = 0, pt_y = 0\<rparr> \<lparr>pt_x = - 5, pt_y = 5\<rparr> \<le> 4 / 10) =
          ((pt_x \<lparr>pt_x = 0, pt_y = 0::real\<rparr> - pt_x \<lparr>pt_x = - 5, pt_y = 5::real\<rparr>) *
           (pt_x \<lparr>pt_x = 0, pt_y = 0::real\<rparr> - pt_x \<lparr>pt_x = - 5, pt_y = 5::real\<rparr>) +
           (pt_y \<lparr>pt_x = 0, pt_y = 0::real\<rparr> - pt_y \<lparr>pt_x = - 5, pt_y = 5::real\<rparr>) *
           (pt_y \<lparr>pt_x = 0, pt_y = 0::real\<rparr> - pt_y \<lparr>pt_x = - 5, pt_y = 5::real\<rparr>)
             \<le> 4 / 10 * (4 / 10))"
    by (rule distance_le_iff) simp
  then have "\<not> distance \<lparr>pt_x = 0, pt_y = 0\<rparr> (target afterSwitch) \<le>
      tolerance (GAME_MODES (mode afterSwitch))"
    by (simp add: afterSwitch_fields)
  then have eq: "afterMiss =
      afterSwitch\<lparr>feedback := FeedbackMissed (Math_round (pt_x \<lparr>pt_x = 0, pt_y = 0::real\<rparr>))
                                            (Math_round (pt_y \<lparr>pt_x = 0, pt_y = 0::real\<rparr>)),
                  lastResult :=
                    Some \<lparr>success = False, clickPos = \<lparr>pt_x = 0, pt_y = 0\<rparr>, timestamp = 700\<rparr>\<rparr>"
    unfolding afterMiss_def by (rule handleCanvasClick_failure)
  show "mode afterMiss = Advanced" "target afterMiss = \<lparr>pt_x = - 5, pt_y = 5\<rparr>"
    "lastResult afterMiss =
       Some \<lparr>success = False, clickPos = \<lparr>pt_x = 0, pt_y = 0\<rparr>, timestamp = 700\<rparr>"
    "timers afterMiss = [\<lparr>due = 1500, capturedMode = Intro\<rparr>]"
    by (simp_all add: eq afterSwitch_fields)
qed

lemma afterTimeout_fields:
  "mode afterTimeout = Advanced"
  "target afterTimeout = \<lparr>pt_x = 9, pt_y = 9\<rparr>"
  "lastResult afterTimeout = None"
  "timers afterTimeout = []"
proof -
  have eq: "afterTimeout =
      timeoutCallback (GAME_MODES Intro) (9 / 10) (9 / 10) (afterMiss\<lparr>timers := []\<rparr>)"
    by (simp add: afterTimeout_def fireTimer_single [OF afterMiss_fields(4)])
  show "mode afterTimeout = Advanced" "lastResult afterTimeout = None" "timers afterTimeout = []"
    by (simp_all add: eq timeoutCallback_def afterMiss_fields)
  show "target afterTimeout = \<lparr>pt_x = 9, pt_y = 9\<rparr>"
    by (simp add: eq timeoutCallback_def generateNewTarget_def getRandomCoord_def)
qed

text \<open>
  The run above: after the switch the mode is Advanced and the callback of the hit is
  still pending; when it runs, it replaces the Advanced target (-5, 5) by (9, 9), a
  target generated for the introductory tier, and clears the miss that was recorded in
  the Advanced tier.
\<close>

theorem stale_callback_counterexample:
  "mode afterSwitch = Advanced \<and>
   target afterSwitch = \<lparr>pt_x = - 5, pt_y = 5\<rparr> \<and>
   timers afterSwitch = [\<lparr>due = 1500, capturedMode = Intro\<rparr>] \<and>
   lastResult afterMiss =
     Some \<lparr>success = False, clickPos = \<lparr>pt_x = 0, pt_y = 0\<rparr>, timestamp = 700\<rparr> \<and>
   mode afterTimeout = Advanced \<and>
   target afterTimeout = \<lparr>pt_x = 9, pt_y = 9\<rparr> \<and>
   target afterTimeout \<noteq> target afterMiss \<and>
   lastResult afterTimeout = None"
  by (simp add: afterSwitch_fields afterMiss_fields afterTimeout_fields)

text \<open>
  C8, as the code has it. A click on a mode button leaves the pending callbacks as they
  are. A pending callback whose time has come runs whatever the mode is by then: it sets
  a target generated for the configuration of the mode in which it was scheduled, clears
  the last result and sets the next-target feedback, and it leaves the mode as it is.
\<close>

theorem callback_survives_mode_switch:
  "timers (modeButtonClick m rx ry st) = timers st \<and>
   (timers st = t # ts \<and> due t \<le> now \<longrightarrow>
      target (fireTimer now rx ry st) = generateNewTarget (GAME_MODES (capturedMode t)) rx ry \<and>
      lastResult (fireTimer now rx ry st) = None \<and>
      feedback (fireTimer now rx ry st) = FeedbackNext \<and>
      mode (fireTimer now rx ry st) = mode st \<and>
      timers (fireTimer now rx ry st) = ts)"
  by (simp add: modeButtonClick_def resetOnModeChange_def fireTimer_def timeoutCallback_def)

theorem callback_survives_mode_switch_witness:
  "timers afterMiss = [\<lparr>due = 1500, capturedMode = Intro\<rparr>] \<and>
   due \<lparr>due = 1500, capturedMode = Intro\<rparr> \<le> 1500 \<and>
   mode afterMiss = Advanced \<and>
   timers (modeButtonClick Advanced (1 / 4) (3 / 4) afterHit) = timers afterHit \<and>
   target (fireTimer 1500 (9 / 10) (9 / 10) afterMiss) =
     generateNewTarget (GAME_MODES Intro) (9 / 10) (9 / 10) \<and>
   lastResult (fireTimer 1500 (9 / 10) (9 / 10) afterMiss) = None \<and>
   mode (fireTimer 1500 (9 / 10) (9 / 10) afterMiss) = Advanced"
proof -
  have t: "timers afterMiss = [\<lparr>due = 1500, capturedMode = Intro\<rparr>]"
    and m: "mode afterMiss = Advanced"
    by (simp_all add: afterMiss_fields)
  have d: "due \<lparr>due = 1500, capturedMode = Intro\<rparr> \<le> 1500" by simp
  note th = callback_survives_mode_switch
    [of Advanced "1 / 4" "3 / 4" afterHit]
  note th2 = callback_survives_mode_switch
    [of _ "9 / 10" "9 / 10" afterMiss "\<lparr>due = 1500, capturedMode = Intro\<rparr>" "[]" 1500]
  have a: "timers (modeButtonClick Advanced (1 / 4) (3 / 4) afterHit) = timers afterHit"
    using th by blast
  have b: "target (fireTimer 1500 (9 / 10) (9 / 10) afterMiss) =
     generateNewTarget (GAME_MODES Intro) (9 / 10) (9 / 10)"
    and c: "lastResult (fireTimer 1500 (9 / 10) (9 / 10) afterMiss) = None"
    and e: "mode (fireTimer 1500 (9 / 10) (9 / 10) afterMiss) = Advanced"
    using th2 t d m by simp_all
  from t d m a b c e show ?thesis by (intro conjI)
qed

section \<open>Container width and the divisors of the mapping\<close>

lemma toLogical_None_iff: "(toLogical cfg d p = None) = (drawW d = 0 \<or> drawH d = 0)"
  by (simp add: toLogical_def toLogical_exact_def)

text \<open>
  A container 80 pixels wide in the introductory tier gives a drawable width and height
  of zero, and \<open>toLogical\<close> then divides by zero; a container 100 pixels wide in the
  Advanced tier gives a negative drawable height.
\<close>

theorem narrow_container_counterexample:
  "drawW (updateSize Intro (Some 80) initialDimensions) = 0 \<and>
   drawH (updateSize Intro (Some 80) initialDimensions) = 0 \<and>
   toLogical (GAME_MODES Intro) (updateSize Intro (Some 80) initialDimensions)
     \<lparr>pt_x = 50, pt_y = 50\<rparr> = None \<and>
   drawW (updateSize Advanced (Some 100) initialDimensions) = 20 \<and>
   drawH (updateSize Advanced (Some 100) initialDimensions) = - 5"
  by (simp add: toLogical_None_iff) (simp add: updateSize_def drawW_def drawH_def padding_def aspectRatio_def)

text \<open>
  C6, as the code has it. The resize handler takes over any container width. The
  drawable width and height are both positive exactly when the container is wider than
  80 pixels times the aspect ratio of the tier; without a container the size stays.
  \<open>toLogical\<close> has no finite result exactly when one of its two divisors is zero.
\<close>

theorem divisors_positive_iff:
  "(0 < drawW (updateSize i (Some w) dims) \<and> 0 < drawH (updateSize i (Some w) dims)) =
     (80 * aspectRatio i < real w) \<and>
   updateSize i None dims = dims \<and>
   (toLogical cfg d p = None) = (drawW d = 0 \<or> drawH d = 0)"
proof -
  have a: "(0 < drawW (updateSize i (Some w) dims) \<and> 0 < drawH (updateSize i (Some w) dims)) =
     (80 * aspectRatio i < real w)"
    by (cases "i = Intro")
      (auto simp add: updateSize_def drawW_def drawH_def padding_def aspectRatio_def)
  have b: "updateSize i None dims = dims" by (simp add: updateSize_def)
  from a b toLogical_None_iff [of cfg d p] show ?thesis by (intro conjI)
qed

section \<open>Loading the progress\<close>

text \<open>
  The stored text \<open>{}\<close> parses, so it is returned as the progress: an object without
  any of the four counts.
\<close>

theorem unvalidated_progress_counterexample:
  "loadProgress JSON_parse_empty_object (Some ''{}'') = JObject [] \<and>
   loadProgress JSON_parse_empty_object (Some ''{}'') \<noteq> zeroProgress \<and>
   \<not> isProgressMapping (loadProgress JSON_parse_empty_object (Some ''{}''))"
  by (simp add: loadProgress_def JSON_parse_empty_object_def zeroProgress_def)

text \<open>
  C7, as the code has it. Without a stored value, with the empty string, or with a
  stored text that \<open>JSON.parse\<close> rejects, the progress is the all-zero mapping, which
  maps each difficulty id to a non-negative integer. Any other stored text gives whatever
  value it parses to.
\<close>

theorem progress_fallback:
  "loadProgress JSON_parse None = zeroProgress \<and>
   loadProgress JSON_parse (Some []) = zeroProgress \<and>
   (JSON_parse s = SyntaxError \<longrightarrow> loadProgress JSON_parse (Some s) = zeroProgress) \<and>
   (s \<noteq> [] \<and> JSON_parse s = Parsed v \<longrightarrow> loadProgress JSON_parse (Some s) = v) \<and>
   isProgressMapping zeroProgress"
  by (simp add: loadProgress_def zeroProgress_def)

theorem progress_fallback_witness:
  "JSON_parse_empty_object ''{INTRO:'' = SyntaxError \<and>
   loadProgress JSON_parse_empty_object (Some ''{INTRO:'') = zeroProgress \<and>
   ''{}'' \<noteq> [] \<and> JSON_parse_empty_object ''{}'' = Parsed (JObject []) \<and>
   loadProgress JSON_parse_empty_object (Some ''{}'') = JObject []"
proof -
  have a: "JSON_parse_empty_object ''{INTRO:'' = SyntaxError"
    and b: "JSON_parse_empty_object ''{}'' = Parsed (JObject [])"
    by (simp_all add: JSON_parse_empty_object_def)
  have c: "''{}'' \<noteq> []" by simp
  from progress_fallback [of JSON_parse_empty_object "''{INTRO:''"] a
  have d: "loadProgress JSON_parse_empty_object (Some ''{INTRO:'') = zeroProgress"
    by blast
  from progress_fallback [of JSON_parse_empty_object "''{}''" "JObject []"] b c
  have e: "loadProgress JSON_parse_empty_object (Some ''{}'') = JObject []"
    by blast
  from a d c b e show ?thesis by (intro conjI)
qed

section \<open>The coordinate mapping and its rounding\<close>

lemma introDims: "updateSize Intro (Some 600) initialDimensions = \<lparr>width = 600, height = 600\<rparr>"
  by (simp add: updateSize_def aspectRatio_def)

lemma mode_mountedState: "mode (mountedState p) = Intro"
  by (simp add: mountedState_eq)

lemma toLogical_exact_toPixel:
  assumes "drawW dims \<noteq> 0" "drawH dims \<noteq> 0" "xSpan cfg \<noteq> 0" "ySpan cfg \<noteq> 0"
  shows "toLogical_exact cfg dims (toPixel cfg dims p) = Some p"
  using assms by (simp add: toLogical_exact_def toPixel_def)

lemma toLogical_toPixel:
  assumes "drawW dims \<noteq> 0" "drawH dims \<noteq> 0" "xSpan cfg \<noteq> 0" "ySpan cfg \<noteq> 0"
  shows "toLogical cfg dims (toPixel cfg dims p) =
           Some \<lparr>pt_x = Math_round (pt_x p), pt_y = Math_round (pt_y p)\<rparr>"
  by (simp add: toLogical_def toLogical_exact_toPixel [OF assms])

lemma Math_round_of_int: "Math_round (of_int k) = of_int k"
  by (simp add: Math_round_def)

lemma toLogical_toPixel_grid:
  assumes "drawW dims \<noteq> 0" "drawH dims \<noteq> 0" "xSpan cfg \<noteq> 0" "ySpan cfg \<noteq> 0"
    and "pt_x p \<in> \<int>" "pt_y p \<in> \<int>"
  shows "toLogical cfg dims (toPixel cfg dims p) = Some p"
proof -
  from assms(5) obtain a :: int where a: "pt_x p = of_int a" by (rule Ints_cases)
  from assms(6) obtain b :: int where b: "pt_y p = of_int b" by (rule Ints_cases)
  have "\<lparr>pt_x = Math_round (pt_x p), pt_y = Math_round (pt_y p)\<rparr> = p"
    by (simp add: a b Math_round_of_int)
  then show ?thesis
    by (simp add: toLogical_toPixel [OF assms(1-4)])
qed

lemma toLogical_integral:
  assumes "toLogical cfg dims p = Some l"
  shows "pt_x l \<in> \<int> \<and> pt_y l \<in> \<int>"
  using assms by (auto simp add: toLogical_def Math_round_def split: option.splits)

lemma toLogical_exact_in_range_iff:
  assumes "0 < drawW dims" "0 < drawH dims" "config_ok cfg"
    and "toLogical_exact cfg dims p = Some l"
  shows "in_range cfg l = in_inset dims p"
proof -
  have sx: "0 < xSpan cfg" and sy: "0 < ySpan cfg"
    using assms(3) by (simp_all add: config_ok_def xSpan_def ySpan_def)
  have lx: "pt_x l = ((pt_x p - padding) / drawW dims) * xSpan cfg + fst (xRange cfg)"
    and ly: "pt_y l = ((height dims - padding - pt_y p) / drawH dims) * ySpan cfg + fst (yRange cfg)"
    using assms(4) by (auto simp add: toLogical_exact_def split: if_splits)
  have x1: "(fst (xRange cfg) \<le> pt_x l) = (padding \<le> pt_x p)"
    using assms(1) sx by (simp add: lx zero_le_mult_iff zero_le_divide_iff)
  have "(pt_x l \<le> snd (xRange cfg)) = (((pt_x p - padding) / drawW dims) * xSpan cfg \<le> 1 * xSpan cfg)"
    by (simp add: lx xSpan_def le_diff_eq)
  also have "\<dots> = ((pt_x p - padding) / drawW dims \<le> 1)"
    using sx by (simp only: mult_le_cancel_right) auto
  also have "\<dots> = (pt_x p \<le> width dims - padding)"
    using assms(1) by (auto simp add: drawW_def)
  finally have x2: "(pt_x l \<le> snd (xRange cfg)) = (pt_x p \<le> width dims - padding)" .
  have y1: "(fst (yRange cfg) \<le> pt_y l) = (pt_y p \<le> height dims - padding)"
    using assms(2) sy by (simp add: ly zero_le_mult_iff zero_le_divide_iff)
  have "(pt_y l \<le> snd (yRange cfg)) =
          (((height dims - padding - pt_y p) / drawH dims) * ySpan cfg \<le> 1 * ySpan cfg)"
    by (simp add: ly ySpan_def le_diff_eq)
  also have "\<dots> = ((height dims - padding - pt_y p) / drawH dims \<le> 1)"
    using sy by (simp only: mult_le_cancel_right) auto
  also have "\<dots> = (padding \<le> pt_y p)"
    using assms(2) by (auto simp add: drawH_def)
  finally have y2: "(pt_y l \<le> snd (yRange cfg)) = (padding \<le> pt_y p)" .
  show ?thesis
    unfolding in_range_def in_inset_def x1 x2 y1 y2 by blast
qed

text \<open>
  C1, evaluated. In the introductory tier on a canvas of 600 by 600 pixels, a click at
  the pixel (170, 300) has the exact logical position (2.5, 5), and the click handler
  receives the rounded point (3, 5). The exact position is farther from the target (3, 5)
  than the tolerance, and the click is scored as a hit.
\<close>

theorem click_point_delivered_rounded:
  "updateSize Intro (Some 600) initialDimensions = \<lparr>width = 600, height = 600\<rparr> \<and>
   mode (mountedState (introCount 0)) = Intro \<and>
   target (mountedState (introCount 0)) = \<lparr>pt_x = 3, pt_y = 5\<rparr> \<and>
   toLogical_exact (GAME_MODES Intro) \<lparr>width = 600, height = 600\<rparr> \<lparr>pt_x = 170, pt_y = 300\<rparr> =
     Some \<lparr>pt_x = 5 / 2, pt_y = 5\<rparr> \<and>
   handleClick (GAME_MODES Intro) \<lparr>width = 600, height = 600\<rparr> (170, 300) (0, 0) =
     Some \<lparr>pt_x = 3, pt_y = 5\<rparr> \<and>
   \<not> distance \<lparr>pt_x = 5 / 2, pt_y = 5\<rparr> \<lparr>pt_x = 3, pt_y = 5\<rparr> \<le> tolerance (GAME_MODES Intro) \<and>
   map_option lastResult
     (canvasClick \<lparr>width = 600, height = 600\<rparr> (170, 300) (0, 0) 1000
        (mountedState (introCount 0))) =
     Some (Some \<lparr>success = True, clickPos = \<lparr>pt_x = 3, pt_y = 5\<rparr>, timestamp = 1000\<rparr>) \<and>
   map_option score
     (canvasClick \<lparr>width = 600, height = 600\<rparr> (170, 300) (0, 0) 1000
        (mountedState (introCount 0))) = Some 1"
proof -
  let ?st = "mountedState (introCount 0)"
  have m: "mode ?st = Intro" and t: "target ?st = \<lparr>pt_x = 3, pt_y = 5\<rparr>"
    and sc: "score ?st = 0"
    by (simp_all add: mountedState_eq)
  have e: "toLogical_exact (GAME_MODES Intro) \<lparr>width = 600, height = 600\<rparr> \<lparr>pt_x = 170, pt_y = 300\<rparr> =
     Some \<lparr>pt_x = 5 / 2, pt_y = 5\<rparr>"
    by (simp add: toLogical_exact_def drawW_def drawH_def padding_def xSpan_def ySpan_def)
  have h: "handleClick (GAME_MODES Intro) \<lparr>width = 600, height = 600\<rparr> (170, 300) (0, 0) =
     Some \<lparr>pt_x = 3, pt_y = 5\<rparr>"
    by (simp add: handleClick_def toLogical_def toLogical_exact_def drawW_def drawH_def
        padding_def xSpan_def ySpan_def Math_round_def)
  have "(distance \<lparr>pt_x = 5 / 2, pt_y = 5\<rparr> \<lparr>pt_x = 3, pt_y = 5\<rparr> \<le> 4 / 10) =
          ((pt_x \<lparr>pt_x = 5 / 2, pt_y = 5::real\<rparr> - pt_x \<lparr>pt_x = 3, pt_y = 5::real\<rparr>) *
           (pt_x \<lparr>pt_x = 5 / 2, pt_y = 5::real\<rparr> - pt_x \<lparr>pt_x = 3, pt_y = 5::real\<rparr>) +
           (pt_y \<lparr>pt_x = 5 / 2, pt_y = 5::real\<rparr> - pt_y \<lparr>pt_x = 3, pt_y = 5::real\<rparr>) *
           (pt_y \<lparr>pt_x = 5 / 2, pt_y = 5::real\<rparr> - pt_y \<lparr>pt_x = 3, pt_y = 5::real\<rparr>)
             \<le> 4 / 10 * (4 / 10))"
    by (rule distance_le_iff) simp
  then have d: "\<not> distance \<lparr>pt_x = 5 / 2, pt_y = 5\<rparr> \<lparr>pt_x = 3, pt_y = 5\<rparr> \<le>
      tolerance (GAME_MODES Intro)"
    by simp
  have hit: "distance \<lparr>pt_x = 3, pt_y = 5\<rparr> (target ?st) \<le> tolerance (GAME_MODES (mode ?st))"
    by (simp add: m t distance_def)
  have c: "canvasClick \<lparr>width = 600, height = 600\<rparr> (170, 300) (0, 0) 1000 ?st =
        Some (handleCanvasClick 1000 \<lparr>pt_x = 3, pt_y = 5\<rparr> ?st)"
    by (simp only: canvasClick_def m h option.case)
  have r: "map_option lastResult
     (canvasClick \<lparr>width = 600, height = 600\<rparr> (170, 300) (0, 0) 1000 ?st) =
     Some (Some \<lparr>success = True, clickPos = \<lparr>pt_x = 3, pt_y = 5\<rparr>, timestamp = 1000\<rparr>)"
    by (simp add: c handleCanvasClick_success [OF hit] t)
  have s: "map_option score
     (canvasClick \<lparr>width = 600, height = 600\<rparr> (170, 300) (0, 0) 1000 ?st) = Some 1"
    by (simp add: c handleCanvasClick_success [OF hit] sc)
  from introDims m t e h d r s show ?thesis by (intro conjI)
qed

text \<open>
  C2, evaluated. In the introductory tier on a canvas of 600 by 600 pixels, the point
  (2.5, 5) lies in the range, \<open>toPixel\<close> maps it to the pixel (170, 300), and
  \<open>toLogical\<close> maps that pixel to (3, 5): half a unit away in x, not within 0.01.
  Without the rounding the round trip is exact (\<open>toLogical_exact_toPixel\<close>).
\<close>

theorem round_trip_off_grid:
  "updateSize Intro (Some 600) initialDimensions = \<lparr>width = 600, height = 600\<rparr> \<and>
   in_range (GAME_MODES Intro) \<lparr>pt_x = 5 / 2, pt_y = 5\<rparr> \<and>
   toPixel (GAME_MODES Intro) \<lparr>width = 600, height = 600\<rparr> \<lparr>pt_x = 5 / 2, pt_y = 5\<rparr> =
     \<lparr>pt_x = 170, pt_y = 300\<rparr> \<and>
   toLogical (GAME_MODES Intro) \<lparr>width = 600, height = 600\<rparr>
     (toPixel (GAME_MODES Intro) \<lparr>width = 600, height = 600\<rparr> \<lparr>pt_x = 5 / 2, pt_y = 5\<rparr>) =
     Some \<lparr>pt_x = 3, pt_y = 5\<rparr> \<and>
   \<not> \<bar>pt_x \<lparr>pt_x = 3, pt_y = 5::real\<rparr> - pt_x \<lparr>pt_x = 5 / 2, pt_y = 5::real\<rparr>\<bar> \<le> 1 / 100"
proof -
  have r: "in_range (GAME_MODES Intro) \<lparr>pt_x = 5 / 2, pt_y = 5\<rparr>"
    by (simp add: in_range_def)
  have p: "toPixel (GAME_MODES Intro) \<lparr>width = 600, height = 600\<rparr> \<lparr>pt_x = 5 / 2, pt_y = 5\<rparr> =
     \<lparr>pt_x = 170, pt_y = 300\<rparr>"
    by (simp add: toPixel_def drawW_def drawH_def padding_def xSpan_def ySpan_def)
  have l: "toLogical (GAME_MODES Intro) \<lparr>width = 600, height = 600\<rparr> \<lparr>pt_x = 170, pt_y = 300\<rparr> =
     Some \<lparr>pt_x = 3, pt_y = 5\<rparr>"
    by (simp add: toLogical_def toLogical_exact_def drawW_def drawH_def padding_def xSpan_def
        ySpan_def Math_round_def)
  have d: "\<not> \<bar>pt_x \<lparr>pt_x = 3, pt_y = 5::real\<rparr> - pt_x \<lparr>pt_x = 5 / 2, pt_y = 5::real\<rparr>\<bar> \<le> 1 / 100"
    by simp
  have l': "toLogical (GAME_MODES Intro) \<lparr>width = 600, height = 600\<rparr>
     (toPixel (GAME_MODES Intro) \<lparr>width = 600, height = 600\<rparr> \<lparr>pt_x = 5 / 2, pt_y = 5\<rparr>) =
     Some \<lparr>pt_x = 3, pt_y = 5\<rparr>"
    by (simp only: p l)
  from introDims r p l' d show ?thesis by (intro conjI)
qed

text \<open>
  C10, evaluated. In the introductory tier on a canvas of 600 by 600 pixels, the pixel
  (27, 300) lies in the left margin, outside the inset rectangle; its exact logical
  position is (-0.25, 5), outside the range, and \<open>toLogical\<close> returns (0, 5), inside
  the range. Without the rounding, the logical point is in the range exactly when the
  pixel is in the inset rectangle (\<open>toLogical_exact_in_range_iff\<close>).
\<close>

theorem margin_click_lands_in_range:
  "updateSize Intro (Some 600) initialDimensions = \<lparr>width = 600, height = 600\<rparr> \<and>
   \<not> in_inset \<lparr>width = 600, height = 600\<rparr> \<lparr>pt_x = 27, pt_y = 300\<rparr> \<and>
   toLogical_exact (GAME_MODES Intro) \<lparr>width = 600, height = 600\<rparr> \<lparr>pt_x = 27, pt_y = 300\<rparr> =
     Some \<lparr>pt_x = - (1 / 4), pt_y = 5\<rparr> \<and>
   toLogical (GAME_MODES Intro) \<lparr>width = 600, height = 600\<rparr> \<lparr>pt_x = 27, pt_y = 300\<rparr> =
     Some \<lparr>pt_x = 0, pt_y = 5\<rparr> \<and>
   in_range (GAME_MODES Intro) \<lparr>pt_x = 0, pt_y = 5\<rparr>"
proof -
  have i: "\<not> in_inset \<lparr>width = 600, height = 600\<rparr> \<lparr>pt_x = 27, pt_y = 300\<rparr>"
    by (simp add: in_inset_def padding_def)
  have e: "toLogical_exact (GAME_MODES Intro) \<lparr>width = 600, height = 600\<rparr> \<lparr>pt_x = 27, pt_y = 300\<rparr> =
     Some \<lparr>pt_x = - (1 / 4), pt_y = 5\<rparr>"
    by (simp add: toLogical_exact_def drawW_def drawH_def padding_def xSpan_def ySpan_def)
  have l: "toLogical (GAME_MODES Intro) \<lparr>width = 600, height = 600\<rparr> \<lparr>pt_x = 27, pt_y = 300\<rparr> =
     Some \<lparr>pt_x = 0, pt_y = 5\<rparr>"
    by (simp add: toLogical_def toLogical_exact_def drawW_def drawH_def padding_def xSpan_def
        ySpan_def Math_round_def)
  have r: "in_range (GAME_MODES Intro) \<lparr>pt_x = 0, pt_y = 5\<rparr>"
    by (simp add: in_range_def)
  from introDims i e l r show ?thesis by (intro conjI)
qed

text \<open>
  A click further out in the margin gives a point outside the range, which the click
  handler evaluates like any other.
\<close>

lemma far_margin_click_example:
  "toLogical (GAME_MODES Intro) \<lparr>width = 600, height = 600\<rparr> \<lparr>pt_x = 1, pt_y = 300\<rparr> =
     Some \<lparr>pt_x = - 1, pt_y = 5\<rparr> \<and>
   \<not> in_range (GAME_MODES Intro) \<lparr>pt_x = - 1, pt_y = 5\<rparr> \<and>
   map_option lastResult
     (canvasClick \<lparr>width = 600, height = 600\<rparr> (1, 300) (0, 0) 1000 (mountedState (introCount 0))) =
     Some (Some \<lparr>success = False, clickPos = \<lparr>pt_x = - 1, pt_y = 5\<rparr>, timestamp = 1000\<rparr>)"
proof -
  have l: "toLogical (GAME_MODES Intro) \<lparr>width = 600, height = 600\<rparr> \<lparr>pt_x = 1, pt_y = 300\<rparr> =
     Some \<lparr>pt_x = - 1, pt_y = 5\<rparr>"
    by (simp add: toLogical_def toLogical_exact_def drawW_def drawH_def padding_def xSpan_def
        ySpan_def Math_round_def)
  have r: "\<not> in_range (GAME_MODES Intro) \<lparr>pt_x = - 1, pt_y = 5\<rparr>"
    by (simp add: in_range_def)
  have "sqrt (4 * 4) = 4" by (simp only: real_sqrt_abs2 abs_numeral)
  then have "distance \<lparr>pt_x = - 1, pt_y = 5\<rparr> \<lparr>pt_x = 3, pt_y = 5\<rparr> = 4"
    by (simp add: distance_def)
  then have d: "\<not> distance \<lparr>pt_x = - 1, pt_y = 5\<rparr> (target (mountedState (introCount 0))) \<le>
      tolerance (GAME_MODES (mode (mountedState (introCount 0))))"
    by (simp add: mountedState_eq)
  have "canvasClick \<lparr>width = 600, height = 600\<rparr> (1, 300) (0, 0) 1000
        (mountedState (introCount 0)) =
        Some (handleCanvasClick 1000 \<lparr>pt_x = - 1, pt_y = 5\<rparr> (mountedState (introCount 0)))"
    using l
    by (simp only: canvasClick_def handleClick_def mode_mountedState fst_conv snd_conv
        diff_zero option.case)
  then have c: "map_option lastResult
     (canvasClick \<lparr>width = 600, height = 600\<rparr> (1, 300) (0, 0) 1000 (mountedState (introCount 0))) =
     Some (Some \<lparr>success = False, clickPos = \<lparr>pt_x = - 1, pt_y = 5\<rparr>, timestamp = 1000\<rparr>)"
    by (simp add: handleCanvasClick_failure [OF d])
  from l r c show ?thesis by (intro conjI)
qed

end
